theory Spec2Isabelle
  imports Main
begin

section \<open>CATMAID history tables (migration 0004\_add\_history\_table\_support)\<close>

text \<open>
  The migration installs four PL/pgSQL functions: \<open>history_table_name\<close>,
  \<open>create_history_table\<close>, \<open>drop_history_table\<close> (with \<open>drop_all_history_tables\<close>) and
  the row trigger \<open>update_history_of_row\<close>. They are embedded here as functions over an
  explicit database state. An exception (\<open>RAISE EXCEPTION\<close>, or an error of an executed
  statement) is the \<open>Inl\<close> branch of a sum; the statement that called the function is
  then aborted and the database stays as it was.
\<close>

subsection \<open>Names, timestamps and ranges\<close>

type_synonym name = string

text \<open>\<open>current_timestamp\<close> is the start time of the running transaction.\<close>

type_synonym timestamp = int

datatype error =
    Expected_three_arguments
      \<comment> \<open>\<open>RAISE EXCEPTION 'History could not be updated, expected three arguments in trigger'\<close>\<close>
  | More_than_one_parent name name
      \<comment> \<open>\<open>RAISE EXCEPTION 'Couldn''t create history table, found more than one parent of ...'\<close>\<close>
  | Range_bounds
      \<comment> \<open>range lower bound must be less than or equal to range upper bound\<close>
  | Undefined_table name
  | Undefined_column name name
  | Duplicate_column name name
  | Datatype_mismatch name name
  | Duplicate_object name
  | Unique_violation name
  | Unassigned_record

text \<open>
  A value of type \<open>tstzrange\<close> with the default bounds \<open>[)\<close>: the empty range, or a lower
  and an upper bound, each of which may be missing (unbounded). The validity range of the
  specification is \<open>[valid_from, valid_to)\<close>; \<open>valid_to = null\<close> is an unbounded upper bound.
\<close>

datatype tstzrange = Empty_range | Range "timestamp option" "timestamp option"

text \<open>
  The constructor function \<open>tstzrange(l, u)\<close>, here \<open>mk_tstzrange\<close>: an error when both bounds are given and the lower one
  is greater, the empty range when they are equal.
\<close>

fun mk_tstzrange :: "timestamp option \<Rightarrow> timestamp option \<Rightarrow> error + tstzrange" where
  "mk_tstzrange (Some l) (Some u) =
     (if u < l then Inl Range_bounds
      else if l = u then Inr Empty_range
      else Inr (Range (Some l) (Some u)))"
| "mk_tstzrange l u = Inr (Range l u)"

text \<open>\<open>lower(r)\<close> is NULL for the empty range and for a missing lower bound.\<close>

fun lower :: "tstzrange \<Rightarrow> timestamp option" where
  "lower Empty_range = None"
| "lower (Range l u) = l"

text \<open>\<open>upper_inf(r)\<close>: the range is still open, its \<open>valid_to\<close> is null.\<close>

fun upper_inf :: "tstzrange \<Rightarrow> bool" where
  "upper_inf (Range l None) = True"
| "upper_inf r = False"

subsection \<open>\<open>history_table_name\<close>\<close>

definition dquote :: char where
  "dquote = CHR 0x22"

text \<open>
  \<open>format('%I', s)\<close> quotes \<open>s\<close> as an identifier when it is not a plain lower-case one,
  doubling every embedded double quote. (PostgreSQL also quotes reserved words; the
  quotes are removed again by \<open>translate\<close> below, so that does not change the result.)
\<close>

definition plain_ident :: "string \<Rightarrow> bool" where
  "plain_ident s =
     (s \<noteq> [] \<and> hd s \<in> set ''abcdefghijklmnopqrstuvwxyz_'' \<and>
      list_all (\<lambda>c. c \<in> set ''abcdefghijklmnopqrstuvwxyz_0123456789'') s)"

definition format_I :: "string \<Rightarrow> string" where
  "format_I s =
     (if plain_ident s then s
      else dquote # concat (map (\<lambda>c. if c = dquote then [dquote, dquote] else [c]) s) @ [dquote])"

text \<open>\<open>translate(s, '"', '')\<close> deletes every double quote.\<close>

definition translate_delete :: "char \<Rightarrow> string \<Rightarrow> string" where
  "translate_delete ch s = filter (\<lambda>c. c \<noteq> ch) s"

text \<open>\<open>RETURN translate(format('%I_history', live_table_name), '"', '')\<close>\<close>

definition history_table_name :: "name \<Rightarrow> name" where
  "history_table_name live_table_name =
     translate_delete dquote (format_I live_table_name @ ''_history'')"

subsection \<open>Rows\<close>

text \<open>
  A row of a live table: its \<open>id\<close> column and the values of its other columns. A row of
  the history table is a copy of it (\<open>LIKE\<close>) with the added column \<open>sys_period\<close>.
\<close>

record live_row =
  row_id :: int
  row_data :: "string list"

record history_row = live_row +
  sys_period :: tstzrange

subsection \<open>The database\<close>

record column =
  col_name :: name
  col_type :: string
  col_not_null :: bool
  col_default :: "string option"

record relation =
  rel_schema :: name
  rel_columns :: "column list"

text \<open>A row trigger that executes \<open>update_history_of_row\<close> with the given arguments.\<close>

record trigger =
  tg_name :: name
  tg_table :: name
  tg_args :: "string list"

text \<open>
  The part of the database the four functions read and write. Relations are found by
  their unqualified name, as every statement of the source but the first names them.
  \<open>pg_inherits\<close> holds pairs (child, parent); \<open>indexes\<close> pairs (index name, table);
  \<open>catmaid_history_table\<close> the rows
  \<open>(history_table_name, live_table_name, creation_time)\<close> of that table.
\<close>

record db =
  relations :: "name \<rightharpoonup> relation"
  pg_inherits :: "(name \<times> name) list"
  indexes :: "(name \<times> name) list"
  triggers :: "trigger list"
  catmaid_history_table :: "(name \<times> name \<times> timestamp) list"
  live_rows :: "name \<Rightarrow> live_row list"
  history_rows :: "name \<Rightarrow> history_row list"

subsection \<open>\<open>update_history_of_row\<close>\<close>

datatype tg_op = INSERT | UPDATE | DELETE

text \<open>The special variables of a PL/pgSQL trigger function.\<close>

record trigger_data =
  TG_OP :: tg_op
  TG_ARGV :: "string list"
  TG_TABLE_NAME :: name
  TG_TABLE_SCHEMA :: name
  OLD :: "live_row option"
  NEW :: "live_row option"

definition TG_NARGS :: "trigger_data \<Rightarrow> nat" where
  "TG_NARGS tg = length (TG_ARGV tg)"

text \<open>
  \<open>UPDATE h SET sys_period = tstzrange(lower(sys_period), current_timestamp) WHERE id = k\<close>:
  every row of \<open>h\<close> whose \<open>id\<close> is \<open>k\<close> gets a new range; the statement fails when one of the
  new ranges cannot be built.
\<close>

fun update_sys_period :: "int \<Rightarrow> timestamp \<Rightarrow> history_row list \<Rightarrow> error + history_row list" where
  "update_sys_period k current_timestamp [] = Inr []"
| "update_sys_period k current_timestamp (r # rs) =
     (if row_id r = k then
        (case mk_tstzrange (lower (sys_period r)) (Some current_timestamp) of
           Inl e \<Rightarrow> Inl e
         | Inr p \<Rightarrow>
             (case update_sys_period k current_timestamp rs of
                Inl e \<Rightarrow> Inl e
              | Inr rs' \<Rightarrow> Inr (r\<lparr>sys_period := p\<rparr> # rs')))
      else
        (case update_sys_period k current_timestamp rs of
           Inl e \<Rightarrow> Inl e
         | Inr rs' \<Rightarrow> Inr (r # rs')))"

text \<open>
  The first \<open>EXECUTE\<close> of the trigger (\<open>TG_OP\<close> is \<open>UPDATE\<close> or \<open>DELETE\<close>). The history table
  is \<open>TG_ARGV[1]\<close>, the column that is set is \<open>TG_ARGV[0]\<close>; a history table has one range
  column, \<open>sys_period\<close>.
\<close>

definition close_history_rows ::
  "name \<Rightarrow> name \<Rightarrow> live_row option \<Rightarrow> timestamp \<Rightarrow> db \<Rightarrow> error + db" where
  "close_history_rows h col old current_timestamp d =
     (case old of
        None \<Rightarrow> Inl Unassigned_record
      | Some old_row \<Rightarrow>
          if relations d h = None then Inl (Undefined_table h)
          else if col \<noteq> ''sys_period'' then Inl (Undefined_column h col)
          else
            (case update_sys_period (row_id old_row) current_timestamp (history_rows d h) of
               Inl e \<Rightarrow> Inl e
             | Inr rows \<Rightarrow> Inr (d\<lparr>history_rows := (history_rows d)(h := rows)\<rparr>)))"

text \<open>
  The second \<open>EXECUTE\<close> (\<open>TG_OP\<close> is \<open>INSERT\<close> or \<open>UPDATE\<close>):
  \<open>INSERT INTO h (columns, sys_period) SELECT (NEW).*, tstzrange(current_timestamp, null)\<close>.
\<close>

definition insert_history_row ::
  "name \<Rightarrow> name \<Rightarrow> live_row option \<Rightarrow> timestamp \<Rightarrow> db \<Rightarrow> error + db" where
  "insert_history_row h col new current_timestamp d =
     (case new of
        None \<Rightarrow> Inl Unassigned_record
      | Some new_row \<Rightarrow>
          if relations d h = None then Inl (Undefined_table h)
          else if col \<noteq> ''sys_period'' then Inl (Undefined_column h col)
          else
            (case mk_tstzrange (Some current_timestamp) None of
               Inl e \<Rightarrow> Inl e
             | Inr p \<Rightarrow>
                 Inr (d\<lparr>history_rows := (history_rows d)
                        (h := history_rows d h @
                           [\<lparr>row_id = row_id new_row, row_data = row_data new_row,
                             sys_period = p\<rparr>])\<rparr>)))"

text \<open>
  The trigger function. It returns the new database and the function's return value,
  which is always NULL (\<open>None\<close>).
\<close>

definition update_history_of_row ::
  "trigger_data \<Rightarrow> timestamp \<Rightarrow> db \<Rightarrow> error + (db \<times> live_row option)" where
  "update_history_of_row tg current_timestamp d =
     (if TG_NARGS tg \<noteq> 3 then Inl Expected_three_arguments
      else
        (case (if TG_OP tg = UPDATE \<or> TG_OP tg = DELETE
               then close_history_rows (TG_ARGV tg ! 1) (TG_ARGV tg ! 0) (OLD tg)
                      current_timestamp d
               else Inr d) of
           Inl e \<Rightarrow> Inl e
         | Inr d1 \<Rightarrow>
             (case (if TG_OP tg = INSERT \<or> TG_OP tg = UPDATE
                    then insert_history_row (TG_ARGV tg ! 1) (TG_ARGV tg ! 0) (NEW tg)
                           current_timestamp d1
                    else Inr d1) of
                Inl e \<Rightarrow> Inl e
              | Inr d2 \<Rightarrow> Inr (d2, None))))"

subsection \<open>Statements executed by \<open>create_history_table\<close>\<close>

definition bind_error :: "error + 'a \<Rightarrow> ('a \<Rightarrow> error + 'b) \<Rightarrow> error + 'b" where
  "bind_error m f = (case m of Inl e \<Rightarrow> Inl e | Inr x \<Rightarrow> f x)"

text \<open>
  The assignment of \<open>format('%s.%s', live_table_schema, live_table_name)\<close> to a variable
  of type \<open>regclass\<close> fails unless that relation exists.
\<close>

definition regclass_exists :: "db \<Rightarrow> name \<Rightarrow> name \<Rightarrow> bool" where
  "regclass_exists d schema n =
     (case relations d n of None \<Rightarrow> False | Some r \<Rightarrow> rel_schema r = schema)"

text \<open>
  \<open>EXISTS(SELECT 1 FROM catmaid_history_table cht WHERE cht.history_table_name = h)\<close>
\<close>

definition history_table_registered :: "name \<Rightarrow> db \<Rightarrow> bool" where
  "history_table_registered h d = (h \<in> set (map fst (catmaid_history_table d)))"

text \<open>
  The view \<open>catmaid_inheritening_tables\<close>: \<open>pg_inherits\<close> joined with the relations and
  schemas of the child and of the parent.
\<close>

record inheritance_row =
  parent_schemaname :: name
  parent_tablename :: name
  child_schemaname :: name
  child_tablename :: name

definition catmaid_inheritening_tables :: "db \<Rightarrow> inheritance_row list" where
  "catmaid_inheritening_tables d =
     concat (map (\<lambda>(child, parent).
        (case relations d child of
           None \<Rightarrow> []
         | Some chl \<Rightarrow>
             (case relations d parent of
                None \<Rightarrow> []
              | Some par \<Rightarrow>
                  [\<lparr>parent_schemaname = rel_schema par, parent_tablename = parent,
                    child_schemaname = rel_schema chl, child_tablename = child\<rparr>])))
       (pg_inherits d))"

text \<open>
  \<open>SELECT parent_schemaname, parent_tablename FROM catmaid_inheritening_tables
   WHERE child_tablename = live_table_name AND child_schemaname = live_table_schema\<close>
\<close>

definition parents_of :: "db \<Rightarrow> name \<Rightarrow> name \<Rightarrow> inheritance_row list" where
  "parents_of d live_table_schema live_table_name =
     filter (\<lambda>r. child_tablename r = live_table_name \<and> child_schemaname r = live_table_schema)
       (catmaid_inheritening_tables d)"

text \<open>
  \<open>LIKE\<close> copies the names, types and not-null constraints of the columns, not their
  defaults.
\<close>

definition like_columns :: "column list \<Rightarrow> column list" where
  "like_columns cs = map (\<lambda>c. c\<lparr>col_default := None\<rparr>) cs"

text \<open>
  \<open>INHERITS\<close> puts the parent's columns first; a copied column with the name of an
  inherited one is merged with it and must have its type.
\<close>

fun merge_columns :: "name \<Rightarrow> column list \<Rightarrow> column list \<Rightarrow> error + column list" where
  "merge_columns h inherited [] = Inr inherited"
| "merge_columns h inherited (c # cs) =
     (case find (\<lambda>p. col_name p = col_name c) inherited of
        None \<Rightarrow> merge_columns h (inherited @ [c]) cs
      | Some p \<Rightarrow>
          if col_type p \<noteq> col_type c then Inl (Datatype_mismatch h (col_name c))
          else merge_columns h
                 (map (\<lambda>q. if col_name q = col_name c
                            then q\<lparr>col_not_null := (col_not_null q \<or> col_not_null c)\<rparr>
                            else q) inherited) cs)"

text \<open>
  \<open>CREATE TABLE IF NOT EXISTS h (LIKE live)\<close>, with \<open>INHERITS (parent_history)\<close> when there is
  a parent. An existing relation \<open>h\<close> is left as it is. The new table is made in the
  schema \<open>public\<close>, where the function looks for its columns afterwards.
\<close>

definition create_table_like :: "name \<Rightarrow> name \<Rightarrow> name option \<Rightarrow> db \<Rightarrow> error + db" where
  "create_table_like h live parent_history d =
     (if relations d h \<noteq> None then Inr d
      else
        (case relations d live of
           None \<Rightarrow> Inl (Undefined_table live)
         | Some l \<Rightarrow>
             (case parent_history of
                None \<Rightarrow>
                  Inr (d\<lparr>relations := (relations d)
                           (h \<mapsto> \<lparr>rel_schema = ''public'',
                                  rel_columns = like_columns (rel_columns l)\<rparr>),
                         history_rows := (history_rows d)(h := [])\<rparr>)
              | Some ph \<Rightarrow>
                  (case relations d ph of
                     None \<Rightarrow> Inl (Undefined_table ph)
                   | Some p \<Rightarrow>
                       bind_error
                         (merge_columns h (rel_columns p) (like_columns (rel_columns l)))
                         (\<lambda>cols.
                            Inr (d\<lparr>relations := (relations d)
                                     (h \<mapsto> \<lparr>rel_schema = ''public'', rel_columns = cols\<rparr>),
                                   pg_inherits := pg_inherits d @ [(h, ph)],
                                   history_rows := (history_rows d)(h := [])\<rparr>))))))"

text \<open>
  The columns the \<open>FOR\<close> loop runs over: those of the live table, unless it is in one of
  the two system schemas.
\<close>

definition live_column_names :: "name \<Rightarrow> db \<Rightarrow> name list" where
  "live_column_names live d =
     (case relations d live of
        None \<Rightarrow> []
      | Some l \<Rightarrow>
          if rel_schema l \<in> set [''information_schema'', ''pg_catalog''] then []
          else map col_name (rel_columns l))"

text \<open>
  The body of the loop: \<open>ALTER TABLE h ALTER COLUMN c DROP NOT NULL\<close> and
  \<open>ALTER TABLE h ALTER COLUMN c SET DEFAULT NULL\<close>.
\<close>

fun alter_columns :: "name \<Rightarrow> name list \<Rightarrow> db \<Rightarrow> error + db" where
  "alter_columns h [] d = Inr d"
| "alter_columns h (c # cs) d =
     (case relations d h of
        None \<Rightarrow> Inl (Undefined_table h)
      | Some r \<Rightarrow>
          if c \<notin> set (map col_name (rel_columns r)) then Inl (Undefined_column h c)
          else alter_columns h cs
                 (d\<lparr>relations := (relations d)
                      (h \<mapsto> r\<lparr>rel_columns :=
                              map (\<lambda>q. if col_name q = c
                                         then q\<lparr>col_not_null := False,
                                                col_default := Some ''NULL''\<rparr>
                                         else q) (rel_columns r)\<rparr>)\<rparr>))"

text \<open>
  \<open>ALTER TABLE h ADD COLUMN sys_period tstzrange NOT NULL DEFAULT
   tstzrange(current_timestamp, null)\<close>, unless the schema \<open>public\<close> has a table \<open>h\<close> with a
  column of that name.
\<close>

definition add_sys_period :: "name \<Rightarrow> db \<Rightarrow> error + db" where
  "add_sys_period h d =
     (case relations d h of
        None \<Rightarrow> Inl (Undefined_table h)
      | Some r \<Rightarrow>
          if rel_schema r = ''public'' \<and> ''sys_period'' \<in> set (map col_name (rel_columns r))
          then Inr d
          else if ''sys_period'' \<in> set (map col_name (rel_columns r))
          then Inl (Duplicate_column h ''sys_period'')
          else Inr (d\<lparr>relations := (relations d)
                      (h \<mapsto> r\<lparr>rel_columns := rel_columns r @
                              [\<lparr>col_name = ''sys_period'', col_type = ''tstzrange'',
                                col_not_null = True,
                                col_default = Some ''tstzrange(current_timestamp, null)''\<rparr>]\<rparr>)\<rparr>))"

text \<open>
  \<open>CREATE INDEX h_sys_period ON h USING gist(sys_period)\<close>, unless
  \<open>to_regclass('h_sys_period')\<close> finds a relation or an index of that name.
\<close>

definition create_sys_period_index :: "name \<Rightarrow> db \<Rightarrow> error + db" where
  "create_sys_period_index h d =
     (if relations d (h @ ''_sys_period'') \<noteq> None \<or>
         h @ ''_sys_period'' \<in> set (map fst (indexes d))
      then Inr d
      else if relations d h = None then Inl (Undefined_table h)
      else Inr (d\<lparr>indexes := indexes d @ [(h @ ''_sys_period'', h)]\<rparr>))"

text \<open>
  \<open>CREATE TRIGGER on_change_<live>_update_history AFTER INSERT OR UPDATE OR DELETE ON live
   FOR EACH ROW EXECUTE PROCEDURE update_history_of_row(sys_period, h, true)\<close>
\<close>

definition trigger_name :: "name \<Rightarrow> name" where
  "trigger_name live = ''on_change_'' @ live @ ''_update_history''"

definition create_trigger :: "name \<Rightarrow> name \<Rightarrow> db \<Rightarrow> error + db" where
  "create_trigger live h d =
     (if relations d live = None then Inl (Undefined_table live)
      else if list_ex (\<lambda>g. tg_name g = trigger_name live \<and> tg_table g = live) (triggers d)
      then Inl (Duplicate_object (trigger_name live))
      else Inr (d\<lparr>triggers := triggers d @
                    [\<lparr>tg_name = trigger_name live, tg_table = live,
                      tg_args = [''sys_period'', h, ''true'']\<rparr>]\<rparr>))"

text \<open>
  \<open>INSERT INTO catmaid_history_table (history_table_name, live_table_name)
   VALUES (h, live)\<close>; \<open>history_table_name\<close> is the primary key and \<open>creation_time\<close> defaults
  to \<open>current_timestamp\<close>.
\<close>

definition insert_history_table_row :: "name \<Rightarrow> name \<Rightarrow> timestamp \<Rightarrow> db \<Rightarrow> error + db" where
  "insert_history_table_row h live current_timestamp d =
     (if h \<in> set (map fst (catmaid_history_table d))
      then Inl (Unique_violation ''catmaid_history_table'')
      else Inr (d\<lparr>catmaid_history_table :=
                    catmaid_history_table d @ [(h, live, current_timestamp)]\<rparr>))"

subsection \<open>\<open>create_history_table\<close>\<close>

text \<open>
  The function from \<open>IF parent_info IS NOT NULL\<close> to its end: the history table, its
  columns, \<open>sys_period\<close>, the index and, if \<open>create_triggers\<close>, the trigger and the row of
  \<open>catmaid_history_table\<close>.
\<close>

definition install_history_table ::
  "name \<Rightarrow> bool \<Rightarrow> inheritance_row option \<Rightarrow> timestamp \<Rightarrow> db \<Rightarrow> error + db" where
  "install_history_table live_table_name create_triggers parent_info current_timestamp d =
     bind_error
       (case parent_info of
          Some p \<Rightarrow>
            create_table_like (history_table_name live_table_name) live_table_name
              (Some (history_table_name (parent_tablename p))) d
        | None \<Rightarrow>
            create_table_like (history_table_name live_table_name) live_table_name None d)
       (\<lambda>d1. bind_error
          (alter_columns (history_table_name live_table_name)
             (live_column_names live_table_name d1) d1)
       (\<lambda>d2. bind_error (add_sys_period (history_table_name live_table_name) d2)
       (\<lambda>d3. bind_error (create_sys_period_index (history_table_name live_table_name) d3)
       (\<lambda>d4.
          if create_triggers then
            bind_error (create_trigger live_table_name (history_table_name live_table_name) d4)
              (\<lambda>d5. insert_history_table_row (history_table_name live_table_name)
                       live_table_name current_timestamp d5)
          else Inr d4))))"

text \<open>
  The whole function. It calls itself for the parent table; PostgreSQL's inheritance has
  no cycles, a list of pairs may have, so the depth of the calls is bounded by the first
  argument and \<open>None\<close> is returned when the bound is reached. The recursive call passes
  \<open>TRUE, TRUE\<close> for \<open>create_triggers\<close> and \<open>copy_inheritance\<close>, as the source does.
\<close>

fun create_history_table ::
  "nat \<Rightarrow> name \<Rightarrow> name \<Rightarrow> bool \<Rightarrow> bool \<Rightarrow> timestamp \<Rightarrow> db \<Rightarrow> (error + db) option" where
  "create_history_table 0 live_table_schema live_table_name create_triggers copy_inheritance
     current_timestamp d = None"
| "create_history_table (Suc depth) live_table_schema live_table_name create_triggers
     copy_inheritance current_timestamp d =
     (if \<not> regclass_exists d live_table_schema live_table_name
      then Some (Inl (Undefined_table (live_table_schema @ ''.'' @ live_table_name)))
      else if history_table_registered (history_table_name live_table_name) d
      then Some (Inr d)
      else if copy_inheritance then
        (case parents_of d live_table_schema live_table_name of
           [] \<Rightarrow>
             Some (install_history_table live_table_name create_triggers None
                     current_timestamp d)
         | [parent_info] \<Rightarrow>
             (case create_history_table depth (parent_schemaname parent_info)
                     (parent_tablename parent_info) True True current_timestamp d of
                None \<Rightarrow> None
              | Some (Inl e) \<Rightarrow> Some (Inl e)
              | Some (Inr d1) \<Rightarrow>
                  Some (install_history_table live_table_name create_triggers
                          (Some parent_info) current_timestamp d1))
         | parent_info # further_parents \<Rightarrow>
             Some (Inl (More_than_one_parent live_table_schema live_table_name)))
      else
        Some (install_history_table live_table_name create_triggers None
                current_timestamp d))"

subsection \<open>\<open>drop_history_table\<close> and \<open>drop_all_history_tables\<close>\<close>

text \<open>
  The tables a cascading drop of the tables \<open>ns\<close> removes: \<open>ns\<close> and, step by step, the
  tables that inherit from one of them. As many steps as \<open>pg_inherits\<close> has rows reach
  every descendant.
\<close>

fun inheriting_tables :: "nat \<Rightarrow> (name \<times> name) list \<Rightarrow> name list \<Rightarrow> name list" where
  "inheriting_tables 0 inh ns = ns"
| "inheriting_tables (Suc n) inh ns =
     inheriting_tables n inh
       (ns @ map fst (filter (\<lambda>(child, parent). parent \<in> set ns \<and> child \<notin> set ns) inh))"

text \<open>
  \<open>DROP TABLE IF EXISTS h CASCADE\<close>: nothing if there is no such table; else the table and
  the tables that inherit from it go, with their rows, indexes, triggers and rows of
  \<open>pg_inherits\<close>.
\<close>

definition drop_table_cascade :: "name \<Rightarrow> db \<Rightarrow> db" where
  "drop_table_cascade h d =
     (if relations d h = None then d
      else
        (let dropped = inheriting_tables (length (pg_inherits d)) (pg_inherits d) [h] in
         d\<lparr>relations := (\<lambda>n. if n \<in> set dropped then None else relations d n),
           pg_inherits :=
             filter (\<lambda>(child, parent). child \<notin> set dropped \<and> parent \<notin> set dropped)
               (pg_inherits d),
           indexes := filter (\<lambda>(i, t). t \<notin> set dropped) (indexes d),
           triggers := filter (\<lambda>g. tg_table g \<notin> set dropped) (triggers d),
           live_rows := (\<lambda>n. if n \<in> set dropped then [] else live_rows d n),
           history_rows := (\<lambda>n. if n \<in> set dropped then [] else history_rows d n)\<rparr>))"

text \<open>
  \<open>DROP TRIGGER IF EXISTS on_change_<live>_update_history ON live\<close>
\<close>

definition drop_trigger :: "name \<Rightarrow> db \<Rightarrow> db" where
  "drop_trigger live d =
     d\<lparr>triggers :=
         filter (\<lambda>g. \<not> (tg_name g = trigger_name live \<and> tg_table g = live)) (triggers d)\<rparr>"

text \<open>
  \<open>DELETE FROM catmaid_history_table WHERE live_table_name = live\<close>
\<close>

definition delete_history_table_rows :: "name \<Rightarrow> db \<Rightarrow> db" where
  "delete_history_table_rows live d =
     d\<lparr>catmaid_history_table :=
         filter (\<lambda>(h, l, t). l \<noteq> live) (catmaid_history_table d)\<rparr>"

text \<open>
  None of the three statements of \<open>drop_history_table\<close> can fail, so the function returns
  the new database.
\<close>

definition drop_history_table :: "name \<Rightarrow> db \<Rightarrow> db" where
  "drop_history_table live_table_name d =
     delete_history_table_rows live_table_name
       (drop_trigger live_table_name
          (drop_table_cascade (history_table_name live_table_name) d))"

text \<open>
  \<open>FOR row IN SELECT * FROM catmaid_history_table LOOP
     PERFORM drop_history_table(row.live_table_name)\<close>: the loop runs over the rows the
  table had when it started.
\<close>

definition drop_all_history_tables :: "db \<Rightarrow> db" where
  "drop_all_history_tables d =
     fold (\<lambda>(h, l, t). drop_history_table l) (catmaid_history_table d) d"



subsection \<open>Row mutations of a live table\<close>

text \<open>
  Modelled from the spec: the live tables and the statements that change their rows are
  not part of the migration. The specification gives a live entity a primary identity
  column \<open>id\<close> (section 3) and a call boundary \<open>mutate(live_name, op, old_image, new_image)\<close>
  that the capture protocol intercepts (section 6). A mutation changes one row of the live
  table and then runs, for that row, every trigger that \<open>create_history_table\<close> installed on
  the table (\<open>AFTER INSERT OR UPDATE OR DELETE ... FOR EACH ROW\<close>). An insert or update that
  would repeat an \<open>id\<close> fails; an update or delete of a row that is not there changes
  nothing and fires no trigger.
\<close>

datatype row_op = Create live_row | Modify live_row live_row | Remove live_row

fun fire_triggers ::
  "trigger list \<Rightarrow> name \<Rightarrow> name \<Rightarrow> tg_op \<Rightarrow> live_row option \<Rightarrow> live_row option \<Rightarrow>
   timestamp \<Rightarrow> db \<Rightarrow> error + db" where
  "fire_triggers [] t schema op old new current_timestamp d = Inr d"
| "fire_triggers (g # gs) t schema op old new current_timestamp d =
     (if tg_table g = t then
        (case update_history_of_row
                \<lparr>TG_OP = op, TG_ARGV = tg_args g, TG_TABLE_NAME = t,
                 TG_TABLE_SCHEMA = schema, OLD = old, NEW = new\<rparr> current_timestamp d of
           Inl e \<Rightarrow> Inl e
         | Inr (d', ret) \<Rightarrow> fire_triggers gs t schema op old new current_timestamp d')
      else fire_triggers gs t schema op old new current_timestamp d)"

definition mutate :: "name \<Rightarrow> row_op \<Rightarrow> timestamp \<Rightarrow> db \<Rightarrow> error + db" where
  "mutate t op current_timestamp d =
     (case relations d t of
        None \<Rightarrow> Inl (Undefined_table t)
      | Some rel \<Rightarrow>
          (case op of
             Create new \<Rightarrow>
               if row_id new \<in> row_id ` set (live_rows d t) then Inl (Unique_violation t)
               else fire_triggers (triggers d) t (rel_schema rel) INSERT None (Some new)
                      current_timestamp
                      (d\<lparr>live_rows := (live_rows d)(t := live_rows d t @ [new])\<rparr>)
           | Modify old new \<Rightarrow>
               if old \<notin> set (live_rows d t) then Inr d
               else if row_id new \<noteq> row_id old \<and> row_id new \<in> row_id ` set (live_rows d t)
               then Inl (Unique_violation t)
               else fire_triggers (triggers d) t (rel_schema rel) UPDATE (Some old) (Some new)
                      current_timestamp
                      (d\<lparr>live_rows := (live_rows d)
                           (t := map (\<lambda>r. if r = old then new else r) (live_rows d t))\<rparr>)
           | Remove old \<Rightarrow>
               if old \<notin> set (live_rows d t) then Inr d
               else fire_triggers (triggers d) t (rel_schema rel) DELETE (Some old) None
                      current_timestamp
                      (d\<lparr>live_rows := (live_rows d)
                           (t := filter (\<lambda>r. r \<noteq> old) (live_rows d t))\<rparr>)))"


text \<open>
  Modelled from the spec (section 5): a sequence of mutations, each a transaction of its
  own with its own timestamp. A mutation that fails is rolled back and the next one
  starts from the state before it.
\<close>

fun run_ops :: "name \<Rightarrow> (row_op \<times> timestamp) list \<Rightarrow> db \<Rightarrow> db" where
  "run_ops t [] d = d"
| "run_ops t ((op, current_timestamp) # ops) d =
     run_ops t ops (case mutate t op current_timestamp d of Inl e \<Rightarrow> d | Inr d' \<Rightarrow> d')"

text \<open>
  The rows a query for the current state of identity \<open>k\<close> finds in a history table: those
  with \<open>id = k\<close> whose validity range is still open.
\<close>

definition open_rows :: "int \<Rightarrow> history_row list \<Rightarrow> history_row list" where
  "open_rows k rs = filter (\<lambda>r. row_id r = k \<and> upper_inf (sys_period r)) rs"


subsection \<open>An example database\<close>

text \<open>
  The table \<open>widget(id, name)\<close> of the specification's scenarios with its history table,
  index, trigger and registry row as \<open>create_history_table('public', 'widget')\<close> leaves
  them, holding the given live rows and history rows.
\<close>

definition widget_columns :: "column list" where
  "widget_columns =
     [\<lparr>col_name = ''id'', col_type = ''integer'', col_not_null = True, col_default = None\<rparr>,
      \<lparr>col_name = ''name'', col_type = ''text'', col_not_null = True, col_default = None\<rparr>]"

definition widget_history_columns :: "column list" where
  "widget_history_columns =
     [\<lparr>col_name = ''id'', col_type = ''integer'', col_not_null = False,
       col_default = Some ''NULL''\<rparr>,
      \<lparr>col_name = ''name'', col_type = ''text'', col_not_null = False,
       col_default = Some ''NULL''\<rparr>,
      \<lparr>col_name = ''sys_period'', col_type = ''tstzrange'', col_not_null = True,
       col_default = Some ''tstzrange(current_timestamp, null)''\<rparr>]"

definition widget_trigger :: trigger where
  "widget_trigger =
     \<lparr>tg_name = ''on_change_widget_update_history'', tg_table = ''widget'',
      tg_args = [''sys_period'', ''widget_history'', ''true'']\<rparr>"

definition widget_db :: "live_row list \<Rightarrow> history_row list \<Rightarrow> db" where
  "widget_db live hist =
     \<lparr>relations =
        [''widget'' \<mapsto> \<lparr>rel_schema = ''public'', rel_columns = widget_columns\<rparr>,
         ''widget_history'' \<mapsto>
           \<lparr>rel_schema = ''public'', rel_columns = widget_history_columns\<rparr>],
      pg_inherits = [],
      indexes = [(''widget_history_sys_period'', ''widget_history'')],
      triggers = [widget_trigger],
      catmaid_history_table = [(''widget_history'', ''widget'', 0)],
      live_rows = (\<lambda>t. [])(''widget'' := live),
      history_rows = (\<lambda>t. [])(''widget_history'' := hist)\<rparr>"

definition widget :: "int \<Rightarrow> string \<Rightarrow> live_row" where
  "widget k n = \<lparr>row_id = k, row_data = [n]\<rparr>"

definition widget_version :: "int \<Rightarrow> string \<Rightarrow> tstzrange \<Rightarrow> history_row" where
  "widget_version k n p = \<lparr>row_id = k, row_data = [n], sys_period = p\<rparr>"

text \<open>The trigger data of a row event on \<open>widget\<close>.\<close>

definition widget_event :: "tg_op \<Rightarrow> live_row option \<Rightarrow> live_row option \<Rightarrow> trigger_data" where
  "widget_event op old new =
     \<lparr>TG_OP = op, TG_ARGV = tg_args widget_trigger, TG_TABLE_NAME = ''widget'',
      TG_TABLE_SCHEMA = ''public'', OLD = old, NEW = new\<rparr>"

text \<open>
  A database without history tables: the live tables \<open>widget\<close>, \<open>gadget\<close> and \<open>gizmo\<close> with
  the given rows of \<open>pg_inherits\<close>.
\<close>

definition gadget_columns :: "column list" where
  "gadget_columns = widget_columns @
     [\<lparr>col_name = ''size'', col_type = ''integer'', col_not_null = False,
       col_default = None\<rparr>]"

definition catalog_db :: "(name \<times> name) list \<Rightarrow> db" where
  "catalog_db inh =
     \<lparr>relations =
        [''widget'' \<mapsto> \<lparr>rel_schema = ''public'', rel_columns = widget_columns\<rparr>,
         ''gadget'' \<mapsto> \<lparr>rel_schema = ''public'', rel_columns = gadget_columns\<rparr>,
         ''gizmo'' \<mapsto> \<lparr>rel_schema = ''public'', rel_columns = widget_columns\<rparr>],
      pg_inherits = inh,
      indexes = [],
      triggers = [],
      catmaid_history_table = [],
      live_rows = (\<lambda>t. []),
      history_rows = (\<lambda>t. [])\<rparr>"

text \<open>
  The same database after \<open>create_history_table('public', 'gadget')\<close>, where \<open>gadget\<close>
  inherits from \<open>widget\<close>.
\<close>

definition versioned_db :: db where
  "versioned_db =
     (case create_history_table (Suc (Suc 0)) ''public'' ''gadget'' True True 5
             (catalog_db [(''gadget'', ''widget'')]) of
        Some (Inr d) \<Rightarrow> d
      | _ \<Rightarrow> catalog_db [(''gadget'', ''widget'')])"

text \<open>
  Two live tables whose names differ in a double quote only, \<open>ab\<close> and \<open>a"b\<close>.
\<close>

definition quoted_name :: name where
  "quoted_name = ''a'' @ [dquote] @ ''b''"

definition quoted_catalog :: db where
  "quoted_catalog =
     \<lparr>relations =
        [''ab'' \<mapsto> \<lparr>rel_schema = ''public'', rel_columns = widget_columns\<rparr>,
         quoted_name \<mapsto> \<lparr>rel_schema = ''public'', rel_columns = widget_columns\<rparr>],
      pg_inherits = [],
      indexes = [],
      triggers = [],
      catmaid_history_table = [],
      live_rows = (\<lambda>t. []),
      history_rows = (\<lambda>t. [])\<rparr>"

section \<open>Properties of the trigger function\<close>

lemma mk_tstzrange_closed:
  "mk_tstzrange l (Some u) = Inr p \<Longrightarrow> \<not> upper_inf p"
  by (cases l) (auto split: if_splits)

lemma update_sys_period_length:
  "update_sys_period k now rs = Inr rs' \<Longrightarrow> length rs' = length rs"
  by (induction rs arbitrary: rs') (auto split: if_splits sum.splits)

lemma update_sys_period_ids:
  "update_sys_period k now rs = Inr rs' \<Longrightarrow> map row_id rs' = map row_id rs"
  by (induction rs arbitrary: rs') (auto split: if_splits sum.splits)

lemma update_sys_period_closes:
  "update_sys_period k now rs = Inr rs' \<Longrightarrow> open_rows k rs' = []"
  by (induction rs arbitrary: rs')
     (auto simp: open_rows_def mk_tstzrange_closed split: if_splits sum.splits)



text \<open>What a call of the trigger function that returns has done, by operation.\<close>

lemma update_history_of_row_DELETE:
  assumes "TG_OP tg = DELETE" and "update_history_of_row tg now d = Inr (d', ret)"
  shows "\<exists>old rs'. OLD tg = Some old \<and>
           update_sys_period (row_id old) now (history_rows d (TG_ARGV tg ! 1)) = Inr rs' \<and>
           d' = d\<lparr>history_rows := (history_rows d)(TG_ARGV tg ! 1 := rs')\<rparr> \<and> ret = None"
  using assms
  by (auto simp: update_history_of_row_def close_history_rows_def
           split: if_splits sum.splits option.splits)



subsection \<open>A delete only closes\<close>

text \<open>
  Claim C7. When the trigger function has run for a \<open>DELETE\<close> of the row \<open>old\<close>, no history
  table has more rows than before, and the history table of the trigger holds no row for
  the identity of \<open>old\<close> whose validity range is open: the current state of that identity
  is absent.
\<close>

theorem delete_closes_without_insert:
  assumes "TG_OP tg = DELETE" and "OLD tg = Some old"
    and "update_history_of_row tg now d = Inr (d', ret)"
  shows "length (history_rows d' h) = length (history_rows d h) \<and>
         open_rows (row_id old) (history_rows d' (TG_ARGV tg ! 1)) = []"
proof -
  obtain rs' where
    upd: "update_sys_period (row_id old) now (history_rows d (TG_ARGV tg ! 1)) = Inr rs'"
    and d': "d' = d\<lparr>history_rows := (history_rows d)(TG_ARGV tg ! 1 := rs')\<rparr>"
    using update_history_of_row_DELETE [OF assms(1) assms(3)] assms(2) by auto
  have "length (history_rows d' h) = length (history_rows d h)"
    using update_sys_period_length [OF upd] d' by simp
  moreover have "open_rows (row_id old) (history_rows d' (TG_ARGV tg ! 1)) = []"
    using update_sys_period_closes [OF upd] d' by simp
  ultimately show ?thesis by simp
qed

lemmas widget_defs =
  widget_db_def widget_def widget_version_def widget_event_def widget_trigger_def

theorem delete_closes_without_insert_witness:
  "\<exists>d'. update_history_of_row (widget_event DELETE (Some (widget 1 ''bar'')) None) 20
           (widget_db [] [widget_version 1 ''bar'' (Range (Some 10) None)]) = Inr (d', None) \<and>
         length (history_rows d' ''widget_history'') = 1 \<and>
         open_rows 1 (history_rows d' ''widget_history'') = []"
proof -
  let ?tg = "widget_event DELETE (Some (widget 1 ''bar'')) None"
  let ?d = "widget_db [] [widget_version 1 ''bar'' (Range (Some 10) None)]"
  obtain d' where run: "update_history_of_row ?tg 20 ?d = Inr (d', None)"
    by (simp add: update_history_of_row_def close_history_rows_def TG_NARGS_def widget_defs)
  have "TG_OP ?tg = DELETE" and "OLD ?tg = Some (widget 1 ''bar'')"
    by (simp_all add: widget_defs)
  from delete_closes_without_insert [OF this run, of "''widget_history''"] run
  show ?thesis
    by (simp add: widget_defs)
qed

subsection \<open>An update or delete rewrites closed intervals too\<close>

text \<open>
  Claim C1. The \<open>UPDATE\<close> statement of the trigger selects by \<open>id\<close> alone, so it also gives a
  new upper bound to rows whose interval was closed before. With the history
  \<open>(1, foo, [0, 10))\<close>, \<open>(1, bar, [10, null))\<close>, an update of row 1 at time 20 turns the closed
  first row into \<open>(1, foo, [0, 20))\<close>, which overlaps the second one, \<open>(1, bar, [10, 20))\<close>.
\<close>

theorem update_rewrites_closed_interval:
  "(case update_history_of_row
           (widget_event UPDATE (Some (widget 1 ''bar'')) (Some (widget 1 ''baz''))) 20
           (widget_db [widget 1 ''baz'']
              [widget_version 1 ''foo'' (Range (Some 0) (Some 10)),
               widget_version 1 ''bar'' (Range (Some 10) None)]) of
      Inl e \<Rightarrow> []
    | Inr (d', ret) \<Rightarrow> history_rows d' ''widget_history'') =
   [widget_version 1 ''foo'' (Range (Some 0) (Some 20)),
    widget_version 1 ''bar'' (Range (Some 10) (Some 20)),
    widget_version 1 ''baz'' (Range (Some 20) None)]"
  by (simp add: update_history_of_row_def close_history_rows_def insert_history_row_def
        TG_NARGS_def widget_defs)

text \<open>
  Scenarios 1 to 3 of the specification (section 8), run on the model: insert at time 0,
  update at time 10, delete at time 20. After the update the history is the one the
  specification gives; the delete closes the open row and moves the upper bound of the
  closed row as well.
\<close>

lemma scenario_insert_update:
  "history_rows
     (run_ops ''widget''
        [(Create (widget 1 ''foo''), 0),
         (Modify (widget 1 ''foo'') (widget 1 ''bar''), 10)]
        (widget_db [] [])) ''widget_history'' =
   [widget_version 1 ''foo'' (Range (Some 0) (Some 10)),
    widget_version 1 ''bar'' (Range (Some 10) None)]"
  by (simp add: mutate_def update_history_of_row_def close_history_rows_def insert_history_row_def
        TG_NARGS_def widget_defs)

lemma scenario_insert_update_delete:
  "history_rows
     (run_ops ''widget''
        [(Create (widget 1 ''foo''), 0),
         (Modify (widget 1 ''foo'') (widget 1 ''bar''), 10),
         (Remove (widget 1 ''bar''), 20)]
        (widget_db [] [])) ''widget_history'' =
   [widget_version 1 ''foo'' (Range (Some 0) (Some 20)),
    widget_version 1 ''bar'' (Range (Some 10) (Some 20))]"
  by (simp add: mutate_def update_history_of_row_def close_history_rows_def insert_history_row_def
        TG_NARGS_def widget_defs)


subsection \<open>At most one open interval per identity\<close>













subsection \<open>The trigger function and the live table\<close>







section \<open>Properties of \<open>create_history_table\<close>\<close>

lemmas create_defs =
  regclass_exists_def history_table_registered_def history_table_name_def format_I_def
  plain_ident_def translate_delete_def dquote_def parents_of_def
  catmaid_inheritening_tables_def install_history_table_def bind_error_def
  create_table_like_def like_columns_def live_column_names_def add_sys_period_def
  create_sys_period_index_def create_trigger_def trigger_name_def
  insert_history_table_row_def

lemmas catalog_defs =
  catalog_db_def gadget_columns_def widget_columns_def quoted_catalog_def quoted_name_def

subsection \<open>The recursive call installs the trigger on the parent too\<close>

text \<open>
  Claim C3. The recursive call for the parent is
  \<open>create_history_table(parent_schemaname, parent_tablename, TRUE, TRUE)\<close>: its third
  argument, \<open>create_triggers\<close>, is true. So \<open>create_history_table('public', 'gadget')\<close>, where
  \<open>gadget\<close> inherits from \<open>widget\<close> and neither has a history table, leaves a trigger and a row
  of \<open>catmaid_history_table\<close> for \<open>widget\<close> as well as for \<open>gadget\<close>.
\<close>

theorem parent_gets_trigger_and_registry_row:
  "(case create_history_table (Suc (Suc 0)) ''public'' ''gadget'' True True 5
           (catalog_db [(''gadget'', ''widget'')]) of
      Some (Inr d) \<Rightarrow>
        (map tg_table (triggers d), map (\<lambda>(h, l, t). l) (catmaid_history_table d))
    | _ \<Rightarrow> ([], [])) =
   ([''widget'', ''gadget''], [''widget'', ''gadget''])"
  by (simp add: create_defs catalog_defs)

subsection \<open>A registered history table name\<close>





subsection \<open>Calling the function twice\<close>

lemma bind_error_Inr:
  "bind_error m f = Inr y \<longleftrightarrow> (\<exists>x. m = Inr x \<and> f x = Inr y)"
  by (cases m) (simp_all add: bind_error_def)


lemma create_table_like_registry:
  "create_table_like h live p d = Inr d' \<Longrightarrow>
   catmaid_history_table d' = catmaid_history_table d \<and> relations d' h \<noteq> None"
  by (auto simp: create_table_like_def bind_error_Inr split: if_splits option.splits)


lemma alter_columns_registry:
  "alter_columns h cs d = Inr d' \<Longrightarrow>
   catmaid_history_table d' = catmaid_history_table d \<and>
   (relations d h \<noteq> None \<longrightarrow> relations d' h \<noteq> None)"
proof (induction cs arbitrary: d)
  case Nil
  then show ?case by simp
next
  case (Cons c cs)
  from Cons.prems(1) obtain r where r: "relations d h = Some r"
    and rest: "alter_columns h cs
                 (d\<lparr>relations := (relations d)
                      (h \<mapsto> r\<lparr>rel_columns :=
                              map (\<lambda>q. if col_name q = c
                                         then q\<lparr>col_not_null := False,
                                                col_default := Some ''NULL''\<rparr>
                                         else q) (rel_columns r)\<rparr>)\<rparr>) = Inr d'"
    by (auto split: option.splits if_splits)
  from Cons.IH [OF rest] show ?case by simp
qed













subsection \<open>More than one parent\<close>



text \<open>
  The same holds when an ancestor has more than one parent: the error of the recursive
  call for the parent is the error of the call.
\<close>

lemma parent_failure_propagates:
  assumes "regclass_exists d schema live"
    and "\<not> history_table_registered (history_table_name live) d"
    and "parents_of d schema live = [q]"
    and "create_history_table depth (parent_schemaname q) (parent_tablename q) True True now d
         = Some (Inl e)"
  shows "create_history_table (Suc depth) schema live ct True now d = Some (Inl e)"
  using assms by simp


section \<open>Properties of \<open>drop_history_table\<close>\<close>




text \<open>
  The bound on the steps is enough: the tables the cascade removes are closed under
  inheritance, whatever rows \<open>pg_inherits\<close> has.
\<close>

lemma inheriting_tables_stable:
  assumes "filter (\<lambda>(child, parent). parent \<in> set ns \<and> child \<notin> set ns) inh = []"
  shows "inheriting_tables n inh ns = ns"
  using assms by (induction n) simp_all

lemma inheriting_tables_closed_aux:
  assumes "length (filter (\<lambda>(child, parent). child \<notin> set ns) inh) \<le> n"
    and "(c, p) \<in> set inh" and "p \<in> set (inheriting_tables n inh ns)"
  shows "c \<in> set (inheriting_tables n inh ns)"
  using assms
proof (induction n arbitrary: ns)
  case 0
  then have "filter (\<lambda>(child, parent). child \<notin> set ns) inh = []" by simp
  with 0(2) have "c \<in> set ns"
    by (auto simp: filter_empty_conv)
  then show ?case by simp
next
  case (Suc n)
  let ?new = "filter (\<lambda>(child, parent). parent \<in> set ns \<and> child \<notin> set ns) inh"
  let ?ns = "ns @ map fst ?new"
  show ?case
  proof (cases "?new = []")
    case True
    then have st: "inheriting_tables (Suc n) inh ns = ns"
      by (rule inheriting_tables_stable)
    with Suc.prems(3) have "p \<in> set ns" by simp
    with True Suc.prems(2) have "c \<in> set ns"
      by (auto simp: filter_empty_conv)
    with st show ?thesis by simp
  next
    case False
    then obtain e where e: "e \<in> set ?new" by (cases ?new) auto
    then have ein: "e \<in> set (filter (\<lambda>(child, parent). child \<notin> set ns) inh)"
      and enot: "\<not> (\<lambda>(child, parent). child \<notin> set ?ns) e"
      by force+
    have "filter (\<lambda>(child, parent). child \<notin> set ?ns) inh =
          filter (\<lambda>(child, parent). child \<notin> set ?ns)
            (filter (\<lambda>(child, parent). child \<notin> set ns) inh)"
      by (auto intro: filter_cong)
    also have "length \<dots> < length (filter (\<lambda>(child, parent). child \<notin> set ns) inh)"
      using ein enot by (rule length_filter_less)
    finally have "length (filter (\<lambda>(child, parent). child \<notin> set ?ns) inh) \<le> n"
      using Suc.prems(1) by simp
    from Suc.IH [OF this Suc.prems(2)] Suc.prems(3) show ?thesis by simp
  qed
qed

lemma inheriting_tables_closed:
  assumes "(c, p) \<in> set inh" and "p \<in> set (inheriting_tables (length inh) inh ns)"
  shows "c \<in> set (inheriting_tables (length inh) inh ns)"
  using length_filter_le assms by (rule inheriting_tables_closed_aux)












lemma versioned_db_unfold:
  "create_history_table (Suc (Suc 0)) ''public'' ''gadget'' True True 5
     (catalog_db [(''gadget'', ''widget'')]) = Some (Inr versioned_db)"
  by (simp add: versioned_db_def create_defs catalog_defs)



end
